theory Spec2Isabelle
  imports Main "HOL-Library.Word"
begin

section \<open>Getters of the beacon state (package state)\<close>

text \<open>
  The development follows the getters of \<^verbatim>\<open>BeaconState\<close>: one accessor per field
  of the wrapped protobuf state, and \<^verbatim>\<open>Clone\<close>, which assembles a protobuf state
  out of all the accessors.

  Scalars are machine words. A byte slice whose \<^emph>\<open>elements\<close> an accessor reads
  (with the builtin \<^verbatim>\<open>copy\<close>) is represented by its contents, a list of bytes. A byte
  slice that an accessor only hands on as a slice value (the keys and credentials of a
  validator, the versions of the fork) has the abstract type \<open>'b\<close>: instantiated
  with \<open>byte list\<close> it is the contents, instantiated with \<open>slice\<close> (further down) it is
  a slice header pointing into an explicit memory, which is what the aliasing statements
  need. Pending attestations are opaque messages of type \<open>'att\<close>.

  The message types are declared in packages outside the files at hand; following the
  data model of the specification, the composite fields (fork, header, eth1 data,
  checkpoints) are records that are always present.
\<close>

subsection \<open>Bytes, words and the builtin copy\<close>

type_synonym byte = "8 word"
type_synonym u64 = "64 word"

text \<open>
  \<^verbatim>\<open>copy(dst, src)\<close> overwrites the first \<open>min (len dst) (len src)\<close> elements of
  \<open>dst\<close> with those of \<open>src\<close> and leaves the rest of \<open>dst\<close> as it was.
\<close>

definition go_copy :: "'a list \<Rightarrow> 'a list \<Rightarrow> 'a list" where
  "go_copy dst src =
     take (min (length dst) (length src)) src @ drop (min (length dst) (length src)) dst"

text \<open>\<^verbatim>\<open>var x [32]byte\<close> and \<^verbatim>\<open>[32]byte{}\<close>: thirty-two zero bytes.\<close>

definition zero32 :: "byte list" where
  "zero32 = replicate 32 0"

text \<open>
  The idiom every root-bearing getter repeats:
  \<^verbatim>\<open>tmpRt := [32]byte{}; copy(tmpRt[:], r); ... tmpRt[:]\<close>.
\<close>

definition tmpRt :: "byte list \<Rightarrow> byte list" where
  "tmpRt r = go_copy zero32 r"

subsection \<open>Messages\<close>

record 'b Fork =
  fork_PreviousVersion :: 'b
  fork_CurrentVersion :: 'b
  fork_Epoch :: u64

record BeaconBlockHeader =
  hdr_Slot :: u64
  hdr_ParentRoot :: "byte list"
  hdr_StateRoot :: "byte list"
  hdr_BodyRoot :: "byte list"

record Eth1Data_pb =
  eth1_DepositRoot :: "byte list"
  eth1_DepositCount :: u64
  eth1_BlockHash :: "byte list"

record 'b Validator =
  val_PublicKey :: 'b
  val_WithdrawalCredentials :: 'b
  val_EffectiveBalance :: u64
  val_Slashed :: bool
  val_ActivationEligibilityEpoch :: u64
  val_ActivationEpoch :: u64
  val_ExitEpoch :: u64
  val_WithdrawableEpoch :: u64

record Checkpoint =
  cp_Epoch :: u64
  cp_Root :: "byte list"

text \<open>\<^verbatim>\<open>bitfield.Bitvector4\<close> is a byte slice; a well-formed one has one byte.\<close>

type_synonym Bitvector4 = "byte list"

record ('b, 'att) BeaconState_pb =
  st_GenesisTime :: u64
  st_Slot :: u64
  st_Fork :: "'b Fork"
  st_LatestBlockHeader :: BeaconBlockHeader
  st_BlockRoots :: "byte list list"
  st_StateRoots :: "byte list list"
  st_HistoricalRoots :: "byte list list"
  st_Eth1Data :: Eth1Data_pb
  st_Eth1DataVotes :: "Eth1Data_pb list"
  st_Eth1DepositIndex :: u64
  st_Validators :: "'b Validator list"
  st_Balances :: "u64 list"
  st_RandaoMixes :: "byte list list"
  st_Slashings :: "u64 list"
  st_PreviousEpochAttestations :: "'att list"
  st_CurrentEpochAttestations :: "'att list"
  st_JustificationBits :: Bitvector4
  st_PreviousJustifiedCheckpoint :: Checkpoint
  st_CurrentJustifiedCheckpoint :: Checkpoint
  st_FinalizedCheckpoint :: Checkpoint

subsection \<open>The getters\<close>

definition GenesisTime :: "('b, 'att) BeaconState_pb \<Rightarrow> u64" where
  "GenesisTime b = st_GenesisTime b"

definition Slot :: "('b, 'att) BeaconState_pb \<Rightarrow> u64" where
  "Slot b = st_Slot b"

definition Fork :: "('b, 'att) BeaconState_pb \<Rightarrow> 'b Fork" where
  "Fork b =
     \<lparr> fork_PreviousVersion = fork_PreviousVersion (st_Fork b),
       fork_CurrentVersion = fork_CurrentVersion (st_Fork b),
       fork_Epoch = fork_Epoch (st_Fork b) \<rparr>"

text \<open>
  The three local arrays are filled first and assigned afterwards:
  \<^verbatim>\<open>bodyRoot\<close> is filled from the stored \<^verbatim>\<open>StateRoot\<close> and \<^verbatim>\<open>stateRoot\<close> from the
  stored \<^verbatim>\<open>BodyRoot\<close>; then \<^verbatim>\<open>hdr.BodyRoot = bodyRoot[:]\<close> and
  \<^verbatim>\<open>hdr.StateRoot = stateRoot[:]\<close>.
\<close>

definition LatestBlockHeader :: "('b, 'att) BeaconState_pb \<Rightarrow> BeaconBlockHeader" where
  "LatestBlockHeader b =
     (let parentRoot = go_copy zero32 (hdr_ParentRoot (st_LatestBlockHeader b));
          bodyRoot = go_copy zero32 (hdr_StateRoot (st_LatestBlockHeader b));
          stateRoot = go_copy zero32 (hdr_BodyRoot (st_LatestBlockHeader b))
      in \<lparr> hdr_Slot = hdr_Slot (st_LatestBlockHeader b),
           hdr_ParentRoot = parentRoot,
           hdr_StateRoot = stateRoot,
           hdr_BodyRoot = bodyRoot \<rparr>)"

definition BlockRoots :: "('b, 'att) BeaconState_pb \<Rightarrow> byte list list" where
  "BlockRoots b = map tmpRt (st_BlockRoots b)"

definition StateRoots :: "('b, 'att) BeaconState_pb \<Rightarrow> byte list list" where
  "StateRoots b = map tmpRt (st_StateRoots b)"

definition HistoricalRoots :: "('b, 'att) BeaconState_pb \<Rightarrow> byte list list" where
  "HistoricalRoots b = map tmpRt (st_HistoricalRoots b)"

definition Eth1Data :: "('b, 'att) BeaconState_pb \<Rightarrow> Eth1Data_pb" where
  "Eth1Data b =
     \<lparr> eth1_DepositRoot = go_copy zero32 (eth1_DepositRoot (st_Eth1Data b)),
       eth1_DepositCount = eth1_DepositCount (st_Eth1Data b),
       eth1_BlockHash = go_copy zero32 (eth1_BlockHash (st_Eth1Data b)) \<rparr>"

text \<open>
  Each vote of the result takes its roots from the vote at the same index and its
  \<^verbatim>\<open>DepositCount\<close> from \<^verbatim>\<open>b.state.Eth1Data\<close>.
\<close>

definition Eth1DataVotes :: "('b, 'att) BeaconState_pb \<Rightarrow> Eth1Data_pb list" where
  "Eth1DataVotes b =
     map (\<lambda>v. \<lparr> eth1_DepositRoot = go_copy zero32 (eth1_DepositRoot v),
                eth1_DepositCount = eth1_DepositCount (st_Eth1Data b),
                eth1_BlockHash = go_copy zero32 (eth1_BlockHash v) \<rparr>)
         (st_Eth1DataVotes b)"

definition Eth1DepositIndex :: "('b, 'att) BeaconState_pb \<Rightarrow> u64" where
  "Eth1DepositIndex b = st_Eth1DepositIndex b"

text \<open>
  A new \<^verbatim>\<open>Validator\<close> per element; the two byte slices are assigned as slice values,
  the scalars by value.
\<close>

definition Validators :: "('b, 'att) BeaconState_pb \<Rightarrow> 'b Validator list" where
  "Validators b =
     map (\<lambda>val. \<lparr> val_PublicKey = val_PublicKey val,
                  val_WithdrawalCredentials = val_WithdrawalCredentials val,
                  val_EffectiveBalance = val_EffectiveBalance val,
                  val_Slashed = val_Slashed val,
                  val_ActivationEligibilityEpoch = val_ActivationEligibilityEpoch val,
                  val_ActivationEpoch = val_ActivationEpoch val,
                  val_ExitEpoch = val_ExitEpoch val,
                  val_WithdrawableEpoch = val_WithdrawableEpoch val \<rparr>)
         (st_Validators b)"

text \<open>\<^verbatim>\<open>make([]uint64, n)\<close>: \<open>n\<close> zeros.\<close>

definition make_u64 :: "nat \<Rightarrow> u64 list" where
  "make_u64 n = replicate n 0"

definition Balances :: "('b, 'att) BeaconState_pb \<Rightarrow> u64 list" where
  "Balances b = go_copy (make_u64 (length (st_Balances b))) (st_Balances b)"

definition RandaoMixes :: "('b, 'att) BeaconState_pb \<Rightarrow> byte list list" where
  "RandaoMixes b = map tmpRt (st_RandaoMixes b)"

definition Slashings :: "('b, 'att) BeaconState_pb \<Rightarrow> u64 list" where
  "Slashings b = go_copy (make_u64 (length (st_Slashings b))) (st_Slashings b)"

text \<open>
  \<^verbatim>\<open>proto.Clone\<close> of the protobuf library returns a deep copy of a message: a message
  with the same contents in storage of its own. On contents it is the identity.
\<close>

definition proto_Clone :: "'att \<Rightarrow> 'att" where
  "proto_Clone m = m"

definition PreviousEpochAttestations :: "('b, 'att) BeaconState_pb \<Rightarrow> 'att list" where
  "PreviousEpochAttestations b = map proto_Clone (st_PreviousEpochAttestations b)"

definition CurrentEpochAttestations :: "('b, 'att) BeaconState_pb \<Rightarrow> 'att list" where
  "CurrentEpochAttestations b = map proto_Clone (st_CurrentEpochAttestations b)"

text \<open>
  \<^verbatim>\<open>res := bitfield.Bitvector4{}\<close> is the composite literal of a slice type without
  elements, a slice of length 0; \<^verbatim>\<open>copy(res, b.state.JustificationBits)\<close> copies into it.
\<close>

definition JustificationBits :: "('b, 'att) BeaconState_pb \<Rightarrow> Bitvector4" where
  "JustificationBits b = go_copy [] (st_JustificationBits b)"

definition PreviousJustifiedCheckpoint :: "('b, 'att) BeaconState_pb \<Rightarrow> Checkpoint" where
  "PreviousJustifiedCheckpoint b =
     \<lparr> cp_Epoch = cp_Epoch (st_PreviousJustifiedCheckpoint b),
       cp_Root = go_copy zero32 (cp_Root (st_PreviousJustifiedCheckpoint b)) \<rparr>"

definition CurrentJustifiedCheckpoint :: "('b, 'att) BeaconState_pb \<Rightarrow> Checkpoint" where
  "CurrentJustifiedCheckpoint b =
     \<lparr> cp_Epoch = cp_Epoch (st_CurrentJustifiedCheckpoint b),
       cp_Root = go_copy zero32 (cp_Root (st_CurrentJustifiedCheckpoint b)) \<rparr>"

definition FinalizedCheckpoint :: "('b, 'att) BeaconState_pb \<Rightarrow> Checkpoint" where
  "FinalizedCheckpoint b =
     \<lparr> cp_Epoch = cp_Epoch (st_FinalizedCheckpoint b),
       cp_Root = go_copy zero32 (cp_Root (st_FinalizedCheckpoint b)) \<rparr>"

definition Clone :: "('b, 'att) BeaconState_pb \<Rightarrow> ('b, 'att) BeaconState_pb" where
  "Clone b =
     \<lparr> st_GenesisTime = GenesisTime b,
       st_Slot = Slot b,
       st_Fork = Fork b,
       st_LatestBlockHeader = LatestBlockHeader b,
       st_BlockRoots = BlockRoots b,
       st_StateRoots = StateRoots b,
       st_HistoricalRoots = HistoricalRoots b,
       st_Eth1Data = Eth1Data b,
       st_Eth1DataVotes = Eth1DataVotes b,
       st_Eth1DepositIndex = Eth1DepositIndex b,
       st_Validators = Validators b,
       st_Balances = Balances b,
       st_RandaoMixes = RandaoMixes b,
       st_Slashings = Slashings b,
       st_PreviousEpochAttestations = PreviousEpochAttestations b,
       st_CurrentEpochAttestations = CurrentEpochAttestations b,
       st_JustificationBits = JustificationBits b,
       st_PreviousJustifiedCheckpoint = PreviousJustifiedCheckpoint b,
       st_CurrentJustifiedCheckpoint = CurrentJustifiedCheckpoint b,
       st_FinalizedCheckpoint = FinalizedCheckpoint b \<rparr>"

subsection \<open>Reading a bit of the justification bits\<close>

text \<open>
  \<^verbatim>\<open>Bitvector4.BitAt\<close> of the bitfield library: false for an index of 4 or more and for
  a vector that is not exactly one byte long (\<^verbatim>\<open>idx >= b.Len() || len(b) != 1\<close>),
  otherwise the test
  \<^verbatim>\<open>b[0] & (1 << idx) == 1 << idx\<close>.
\<close>

definition BitAt :: "Bitvector4 \<Rightarrow> nat \<Rightarrow> bool" where
  "BitAt b idx =
     (if 4 \<le> idx then False
      else if length b = 1 then and (b ! 0) (push_bit idx 1) = push_bit idx 1
      else False)"

subsection \<open>Slices in an explicit memory\<close>

text \<open>
  For the statements about sharing, a slice is a header (backing array, length,
  capacity) and the memory holds the backing arrays by address. All slices of this
  development start at the beginning of their array, so the header carries no offset, and
  a backing array is as long as the capacity of its slice.
\<close>

type_synonym addr = nat

record slice =
  sl_array :: addr
  sl_len :: nat
  sl_cap :: nat

type_synonym 'a memory = "'a list list"

text \<open>The elements a slice shows.\<close>

definition mem_read :: "'a memory \<Rightarrow> slice \<Rightarrow> 'a list" where
  "mem_read m s = (if sl_array s < length m then take (sl_len s) (m ! sl_array s) else [])"

text \<open>\<^verbatim>\<open>make([]T, n)\<close>: a new array of \<open>n\<close> zero values at a new address.\<close>

definition mem_make :: "nat \<Rightarrow> 'a::zero memory \<Rightarrow> slice \<times> 'a memory" where
  "mem_make n m = (\<lparr> sl_array = length m, sl_len = n, sl_cap = n \<rparr>, m @ [replicate n 0])"

text \<open>\<^verbatim>\<open>s[i] = v\<close>: an index outside the length panics (\<open>None\<close>).\<close>

definition mem_write :: "'a memory \<Rightarrow> slice \<Rightarrow> nat \<Rightarrow> 'a \<Rightarrow> 'a memory option" where
  "mem_write m s i v =
     (if i < sl_len s then Some (m[sl_array s := (m ! sl_array s)[i := v]]) else None)"

text \<open>\<^verbatim>\<open>copy(dst, src)\<close> on slices: the array of \<open>dst\<close> is overwritten in place.\<close>

definition mem_copy :: "'a memory \<Rightarrow> slice \<Rightarrow> slice \<Rightarrow> 'a memory" where
  "mem_copy m dst src =
     m[sl_array dst :=
         take (min (sl_len dst) (sl_len src)) (mem_read m src)
         @ drop (min (sl_len dst) (sl_len src)) (m ! sl_array dst)]"

text \<open>
  \<^verbatim>\<open>append(s, v)\<close>: with spare capacity the element is written into the array of
  \<open>s\<close>; without, a new array is allocated and the elements move there (how much larger
  the new array is, the language leaves open; here it has room for exactly the result).
\<close>

definition mem_append :: "'a memory \<Rightarrow> slice \<Rightarrow> 'a \<Rightarrow> slice \<times> 'a memory" where
  "mem_append m s v =
     (if sl_len s < sl_cap s
      then (s\<lparr> sl_len := sl_len s + 1 \<rparr>,
            m[sl_array s := (m ! sl_array s)[sl_len s := v]])
      else (\<lparr> sl_array = length m, sl_len = sl_len s + 1, sl_cap = sl_len s + 1 \<rparr>,
            m @ [mem_read m s @ [v]]))"

text \<open>
  \<^verbatim>\<open>Balances\<close> once more, on the memory: \<open>bal\<close> is the slice \<^verbatim>\<open>b.state.Balances\<close>; the
  result is the slice returned and the memory after the call.
\<close>

definition Balances_mem :: "u64 memory \<Rightarrow> slice \<Rightarrow> slice \<times> u64 memory" where
  "Balances_mem m bal =
     (let (res, m1) = mem_make (sl_len bal) m
      in (res, mem_copy m1 res bal))"

subsection \<open>Example states\<close>

text \<open>A state with every sequence empty; \<open>v\<close> is the slice of both fork versions.\<close>

definition blank_state :: "'b \<Rightarrow> ('b, 'att) BeaconState_pb" where
  "blank_state v =
     \<lparr> st_GenesisTime = 0,
       st_Slot = 0,
       st_Fork = \<lparr> fork_PreviousVersion = v, fork_CurrentVersion = v, fork_Epoch = 0 \<rparr>,
       st_LatestBlockHeader =
         \<lparr> hdr_Slot = 0, hdr_ParentRoot = replicate 32 0,
           hdr_StateRoot = replicate 32 0, hdr_BodyRoot = replicate 32 0 \<rparr>,
       st_BlockRoots = [],
       st_StateRoots = [],
       st_HistoricalRoots = [],
       st_Eth1Data =
         \<lparr> eth1_DepositRoot = replicate 32 0, eth1_DepositCount = 0,
           eth1_BlockHash = replicate 32 0 \<rparr>,
       st_Eth1DataVotes = [],
       st_Eth1DepositIndex = 0,
       st_Validators = [],
       st_Balances = [],
       st_RandaoMixes = [],
       st_Slashings = [],
       st_PreviousEpochAttestations = [],
       st_CurrentEpochAttestations = [],
       st_JustificationBits = [0],
       st_PreviousJustifiedCheckpoint = \<lparr> cp_Epoch = 0, cp_Root = replicate 32 0 \<rparr>,
       st_CurrentJustifiedCheckpoint = \<lparr> cp_Epoch = 0, cp_Root = replicate 32 0 \<rparr>,
       st_FinalizedCheckpoint = \<lparr> cp_Epoch = 0, cp_Root = replicate 32 0 \<rparr> \<rparr>"

text \<open>A header whose state root is all ones and whose body root is all twos.\<close>

definition header_state :: "(byte list, unit) BeaconState_pb" where
  "header_state =
     (blank_state [])\<lparr> st_LatestBlockHeader :=
        \<lparr> hdr_Slot = 7, hdr_ParentRoot = replicate 32 0,
          hdr_StateRoot = replicate 32 1, hdr_BodyRoot = replicate 32 2 \<rparr> \<rparr>"

text \<open>Eth1 data with deposit count 5 and a single vote with deposit count 9.\<close>

definition votes_state :: "(byte list, unit) BeaconState_pb" where
  "votes_state =
     (blank_state [])\<lparr>
        st_Eth1Data :=
          \<lparr> eth1_DepositRoot = replicate 32 0, eth1_DepositCount = 5,
            eth1_BlockHash = replicate 32 0 \<rparr>,
        st_Eth1DataVotes :=
          [\<lparr> eth1_DepositRoot = replicate 32 3, eth1_DepositCount = 9,
             eth1_BlockHash = replicate 32 4 \<rparr>] \<rparr>"

text \<open>Justification bits with bit 0 set.\<close>

definition bits_state :: "(byte list, unit) BeaconState_pb" where
  "bits_state = (blank_state [])\<lparr> st_JustificationBits := [1] \<rparr>"

text \<open>
  One validator whose public key is the array at address 0 and whose withdrawal
  credentials are the array at address 1 of \<open>keys_memory\<close>; the fork versions are the
  array at address 2.
\<close>

definition keys_memory :: "byte memory" where
  "keys_memory = [[1, 2, 3], [9], [0, 0, 0, 0]]"

definition keys_state :: "(slice, unit) BeaconState_pb" where
  "keys_state =
     (blank_state \<lparr> sl_array = 2, sl_len = 4, sl_cap = 4 \<rparr>)\<lparr>
        st_Validators :=
          [\<lparr> val_PublicKey = \<lparr> sl_array = 0, sl_len = 3, sl_cap = 3 \<rparr>,
             val_WithdrawalCredentials = \<lparr> sl_array = 1, sl_len = 1, sl_cap = 1 \<rparr>,
             val_EffectiveBalance = 32000000000,
             val_Slashed = False,
             val_ActivationEligibilityEpoch = 0,
             val_ActivationEpoch = 0,
             val_ExitEpoch = 0,
             val_WithdrawableEpoch = 0 \<rparr>] \<rparr>"

text \<open>Three balances in the array at address 0.\<close>

definition balances_memory :: "u64 memory" where
  "balances_memory = [[32000000000, 31500000000, 32000000000]]"

definition balances_slice :: slice where
  "balances_slice = \<lparr> sl_array = 0, sl_len = 3, sl_cap = 3 \<rparr>"

definition balances_state :: "(byte list, unit) BeaconState_pb" where
  "balances_state =
     (blank_state [])\<lparr> st_Balances := [32000000000, 31500000000, 32000000000] \<rparr>"

section \<open>Properties\<close>

subsection \<open>The builtin copy into a zeroed array\<close>

lemma go_copy_length: "length (go_copy dst src) = length dst"
  by (simp add: go_copy_def)

lemma go_copy_zero32:
  "go_copy zero32 r = take 32 r @ replicate (32 - length r) 0"
  by (simp add: go_copy_def zero32_def min_def)

lemma go_copy_zero32_length: "length (go_copy zero32 r) = 32"
  by (simp add: go_copy_length zero32_def)

lemma go_copy_same_length: "length dst = length src \<Longrightarrow> go_copy dst src = src"
  by (simp add: go_copy_def)

lemma Balances_contents: "Balances b = st_Balances b"
  by (simp add: Balances_def make_u64_def go_copy_same_length)

lemma Slashings_contents: "Slashings b = st_Slashings b"
  by (simp add: Slashings_def make_u64_def go_copy_same_length)

subsection \<open>What the getters return in general\<close>

lemma LatestBlockHeader_fields:
  "hdr_Slot (LatestBlockHeader b) = hdr_Slot (st_LatestBlockHeader b)
   \<and> hdr_ParentRoot (LatestBlockHeader b) = tmpRt (hdr_ParentRoot (st_LatestBlockHeader b))
   \<and> hdr_StateRoot (LatestBlockHeader b) = tmpRt (hdr_BodyRoot (st_LatestBlockHeader b))
   \<and> hdr_BodyRoot (LatestBlockHeader b) = tmpRt (hdr_StateRoot (st_LatestBlockHeader b))"
  by (simp add: LatestBlockHeader_def tmpRt_def)

lemma Eth1DataVotes_fields:
  "map eth1_DepositRoot (Eth1DataVotes b) = map (tmpRt \<circ> eth1_DepositRoot) (st_Eth1DataVotes b)
   \<and> map eth1_BlockHash (Eth1DataVotes b) = map (tmpRt \<circ> eth1_BlockHash) (st_Eth1DataVotes b)
   \<and> map eth1_DepositCount (Eth1DataVotes b)
       = replicate (length (st_Eth1DataVotes b)) (eth1_DepositCount (st_Eth1Data b))"
  by (simp add: Eth1DataVotes_def tmpRt_def comp_def map_replicate_const)

lemma JustificationBits_empty: "JustificationBits b = []"
  by (simp add: JustificationBits_def go_copy_def)

lemma Validators_contents: "Validators b = st_Validators b"
  unfolding Validators_def by (rule map_idI) simp

subsection \<open>Memory\<close>

lemma mem_read_snoc: "sl_array s < length m \<Longrightarrow> mem_read (m @ [xs]) s = mem_read m s"
  by (simp add: mem_read_def nth_append)

lemma mem_read_fresh:
  "mem_read (m @ [xs]) \<lparr> sl_array = length m, sl_len = n, sl_cap = c \<rparr> = take n xs"
  by (simp add: mem_read_def)

lemma mem_read_take: "take (sl_len s) (mem_read m s) = mem_read m s"
  by (simp add: mem_read_def)

lemma Balances_mem_result:
  assumes "sl_array bal < length m"
  shows "Balances_mem m bal =
           (\<lparr> sl_array = length m, sl_len = sl_len bal, sl_cap = sl_len bal \<rparr>,
            m @ [mem_read m bal])"
  using assms
  by (simp add: Balances_mem_def mem_make_def mem_copy_def mem_read_snoc mem_read_take)

lemma mem_append_full:
  "sl_cap s = sl_len s \<Longrightarrow>
   mem_append m s v =
     (\<lparr> sl_array = length m, sl_len = sl_len s + 1, sl_cap = sl_len s + 1 \<rparr>,
      m @ [mem_read m s @ [v]])"
  by (simp add: mem_append_def)

section \<open>The claims\<close>

text \<open>
  C1. The header returned by \<^verbatim>\<open>LatestBlockHeader\<close> is meant to carry, in each root
  field, the stored field of the same name brought to 32 bytes. On the state
  \<open>header_state\<close>, whose stored state root is 32 bytes of 1 and whose stored body root
  is 32 bytes of 2, the getter returns the state root 32 bytes of 2 and the body root
  32 bytes of 1: the two fields come back exchanged.
\<close>

theorem LatestBlockHeader_at_header_state:
  "hdr_StateRoot (st_LatestBlockHeader header_state) = replicate 32 1
   \<and> hdr_BodyRoot (st_LatestBlockHeader header_state) = replicate 32 2
   \<and> hdr_StateRoot (LatestBlockHeader header_state) = replicate 32 2
   \<and> hdr_BodyRoot (LatestBlockHeader header_state) = replicate 32 1"
  by (simp add: header_state_def blank_state_def LatestBlockHeader_def go_copy_zero32)

text \<open>
  C2. Every vote returned by \<^verbatim>\<open>Eth1DataVotes\<close> is meant to carry the deposit count
  of the stored vote at the same index. On the state \<open>votes_state\<close>, whose eth1 data has
  deposit count 5 and whose only vote has deposit count 9, the returned vote has deposit
  count 5.
\<close>

theorem Eth1DataVotes_at_votes_state:
  "map eth1_DepositCount (st_Eth1DataVotes votes_state) = [9]
   \<and> map eth1_DepositCount (Eth1DataVotes votes_state) = [5]"
  by (simp add: votes_state_def blank_state_def Eth1DataVotes_def)

text \<open>
  C3. The vector returned by \<^verbatim>\<open>JustificationBits\<close> is meant to agree with the stored
  one at every bit. On the state \<open>bits_state\<close>, whose stored vector has bit 0 set, the
  getter returns the vector of length 0, in which bit 0 reads as not set.
\<close>

theorem JustificationBits_at_bits_state:
  "BitAt (st_JustificationBits bits_state) 0
   \<and> JustificationBits bits_state = []
   \<and> \<not> BitAt (JustificationBits bits_state) 0"
  by (simp add: bits_state_def blank_state_def JustificationBits_def go_copy_def BitAt_def)

text \<open>
  C4. Mutating the result of one call of a getter is meant to leave the result of another
  call, and the store, unchanged. On the state \<open>keys_state\<close> in the memory
  \<open>keys_memory\<close> the public key of the validator returned by \<^verbatim>\<open>Validators\<close> reads
  1, 2, 3; writing 255 at index 0 of that slice yields a memory in which the public key
  of the validator returned by a second call, and the one in the store, read 255, 2, 3.
\<close>

theorem Validators_share_public_key:
  "mem_read keys_memory (val_PublicKey (Validators keys_state ! 0)) = [1, 2, 3]
   \<and> mem_write keys_memory (val_PublicKey (Validators keys_state ! 0)) 0 0xFF
       = Some [[0xFF, 2, 3], [9], [0, 0, 0, 0]]
   \<and> mem_read ([[0xFF, 2, 3], [9], [0, 0, 0, 0]] :: byte memory) (val_PublicKey (Validators keys_state ! 0))
       = [0xFF, 2, 3]
   \<and> mem_read ([[0xFF, 2, 3], [9], [0, 0, 0, 0]] :: byte memory) (val_PublicKey (st_Validators keys_state ! 0))
       = [0xFF, 2, 3]"
  by (simp add: keys_state_def keys_memory_def blank_state_def Validators_def
      mem_read_def mem_write_def)

text \<open>
  C5. Copying a buffer into a zeroed 32-byte array, as every root-bearing getter does,
  yields the buffer padded with zeros on the right when it has at most 32 bytes and its
  first 32 bytes otherwise, always 32 bytes; and a stored parent root of 40 bytes of
  \<open>0xAA\<close> comes back from \<^verbatim>\<open>LatestBlockHeader\<close> as 32 bytes of \<open>0xAA\<close>.
\<close>

theorem root_normalization:
  "go_copy zero32 r = (if length r \<le> 32 then r @ replicate (32 - length r) 0 else take 32 r)
   \<and> tmpRt r = go_copy zero32 r
   \<and> length (go_copy zero32 r) = 32
   \<and> hdr_ParentRoot (LatestBlockHeader
        (b\<lparr> st_LatestBlockHeader :=
              (st_LatestBlockHeader b)\<lparr> hdr_ParentRoot := replicate 40 0xAA \<rparr> \<rparr>))
       = replicate 32 0xAA"
  by (simp add: go_copy_zero32 go_copy_zero32_length tmpRt_def LatestBlockHeader_def)

text \<open>
  C6. Every field of the state returned by \<^verbatim>\<open>Clone\<close> is the result of the getter of
  that field on the same state.
\<close>

theorem Clone_fields:
  "st_GenesisTime (Clone b) = GenesisTime b
   \<and> st_Slot (Clone b) = Slot b
   \<and> st_Fork (Clone b) = Fork b
   \<and> st_LatestBlockHeader (Clone b) = LatestBlockHeader b
   \<and> st_BlockRoots (Clone b) = BlockRoots b
   \<and> st_StateRoots (Clone b) = StateRoots b
   \<and> st_HistoricalRoots (Clone b) = HistoricalRoots b
   \<and> st_Eth1Data (Clone b) = Eth1Data b
   \<and> st_Eth1DataVotes (Clone b) = Eth1DataVotes b
   \<and> st_Eth1DepositIndex (Clone b) = Eth1DepositIndex b
   \<and> st_Validators (Clone b) = Validators b
   \<and> st_Balances (Clone b) = Balances b
   \<and> st_RandaoMixes (Clone b) = RandaoMixes b
   \<and> st_Slashings (Clone b) = Slashings b
   \<and> st_PreviousEpochAttestations (Clone b) = PreviousEpochAttestations b
   \<and> st_CurrentEpochAttestations (Clone b) = CurrentEpochAttestations b
   \<and> st_JustificationBits (Clone b) = JustificationBits b
   \<and> st_PreviousJustifiedCheckpoint (Clone b) = PreviousJustifiedCheckpoint b
   \<and> st_CurrentJustifiedCheckpoint (Clone b) = CurrentJustifiedCheckpoint b
   \<and> st_FinalizedCheckpoint (Clone b) = FinalizedCheckpoint b"
  by (simp add: Clone_def)

text \<open>
  C7. Two clones of an unchanged state are meant to share no mutable storage. On the state
  \<open>keys_state\<close> in the memory \<open>keys_memory\<close> the withdrawal credentials of the validator
  of a clone read 9; writing 85 at index 0 of that slice yields a memory in which the
  withdrawal credentials of the validator of a second clone, and of a later call of
  \<^verbatim>\<open>Validators\<close>, read 85.
\<close>

theorem Clone_shares_withdrawal_credentials:
  "mem_read keys_memory (val_WithdrawalCredentials (st_Validators (Clone keys_state) ! 0)) = [9]
   \<and> mem_write keys_memory
        (val_WithdrawalCredentials (st_Validators (Clone keys_state) ! 0)) 0 0x55
       = Some [[1, 2, 3], [0x55], [0, 0, 0, 0]]
   \<and> mem_read ([[1, 2, 3], [0x55], [0, 0, 0, 0]] :: byte memory)
        (val_WithdrawalCredentials (st_Validators (Clone keys_state) ! 0)) = [0x55]
   \<and> mem_read ([[1, 2, 3], [0x55], [0, 0, 0, 0]] :: byte memory)
        (val_WithdrawalCredentials (Validators keys_state ! 0)) = [0x55]"
  by (simp add: keys_state_def keys_memory_def blank_state_def Clone_def Validators_def
      mem_read_def mem_write_def)

text \<open>
  C8. \<^verbatim>\<open>Balances\<close> returns the stored balances, element for element, in a newly
  allocated array. On contents: the result equals the stored list. On the memory, for a
  well-formed slice \<open>bal\<close> of stored balances: the call extends the memory by exactly one
  array, at the first address the memory before the call does not have, and leaves every
  array of the memory before the call as it was; the returned slice is that new array, with
  the length of \<open>bal\<close> as length and capacity, and shows the elements of \<open>bal\<close>.
  Appending an element to the returned slice allocates again, so that the stored array
  and the returned one keep their elements. A second call allocates a further array,
  different from the stored one, from the first result and from the appended one, and
  returns a slice that again shows exactly the elements of \<open>bal\<close>, as many as \<open>bal\<close>
  has. The witness is the scenario of the three balances 32000000000, 31500000000,
  32000000000.
\<close>

theorem Balances_fresh_copy:
  assumes "sl_array bal < length m" and "length (m ! sl_array bal) = sl_cap bal" and "sl_len bal \<le> sl_cap bal"
  shows "Balances b = st_Balances b
    \<and> (case Balances_mem m bal of (a, m1) \<Rightarrow>
          mem_read m1 a = Balances (b\<lparr> st_Balances := mem_read m bal \<rparr>)
        \<and> mem_read m1 a = mem_read m bal
        \<and> length (mem_read m1 a) = sl_len bal
        \<and> sl_array a \<noteq> sl_array bal
        \<and> sl_array a = length m
        \<and> sl_len a = sl_len bal
        \<and> sl_cap a = sl_len bal
        \<and> m1 = m @ [mem_read m bal]
        \<and> take (length m) m1 = m
        \<and> (case mem_append m1 a x of (a', m2) \<Rightarrow>
              mem_read m2 a' = mem_read m bal @ [x]
            \<and> mem_read m2 bal = mem_read m bal
            \<and> sl_array a' = length m1
            \<and> m2 = m1 @ [mem_read m bal @ [x]]
            \<and> take (length m) m2 = m
            \<and> mem_read m2 a = mem_read m bal
            \<and> (case Balances_mem m2 bal of (c, m3) \<Rightarrow>
                  mem_read m3 c = mem_read m bal
                \<and> length (mem_read m3 c) = sl_len bal
                \<and> sl_array c = length m2
                \<and> sl_array c \<noteq> sl_array a
                \<and> sl_array c \<noteq> sl_array a'
                \<and> sl_array c \<noteq> sl_array bal
                \<and> m3 = m2 @ [mem_read m bal]
                \<and> take (length m) m3 = m
                \<and> mem_read m3 bal = mem_read m bal
                \<and> mem_read m3 a' = mem_read m bal @ [x])))"
proof -
  define a where "a = \<lparr> sl_array = length m, sl_len = sl_len bal, sl_cap = sl_len bal \<rparr>"
  define m1 where "m1 = m @ [mem_read m bal]"
  define a' where
    "a' = \<lparr> sl_array = length m1, sl_len = sl_len bal + 1, sl_cap = sl_len bal + 1 \<rparr>"
  define m2 where "m2 = m1 @ [mem_read m bal @ [x]]"
  define c where "c = \<lparr> sl_array = length m2, sl_len = sl_len bal, sl_cap = sl_len bal \<rparr>"
  define m3 where "m3 = m2 @ [mem_read m bal]"
  have len: "length (mem_read m bal) = sl_len bal"
    using assms by (simp add: mem_read_def)
  have first: "Balances_mem m bal = (a, m1)"
    unfolding a_def m1_def using assms(1) by (rule Balances_mem_result)
  have read_a: "mem_read m1 a = mem_read m bal"
    unfolding a_def m1_def by (simp add: mem_read_fresh mem_read_take)
  have app: "mem_append m1 a x = (a', m2)"
    unfolding a'_def m2_def by (simp add: mem_append_full a_def read_a [unfolded a_def])
  have read_a': "mem_read m2 a' = mem_read m bal @ [x]"
    unfolding a'_def m2_def using len by (simp add: mem_read_fresh)
  have in1: "sl_array bal < length m1"
    using assms(1) by (simp add: m1_def)
  have bal1: "mem_read m1 bal = mem_read m bal"
    unfolding m1_def using assms(1) by (rule mem_read_snoc)
  have bal2: "mem_read m2 bal = mem_read m bal"
    unfolding m2_def using mem_read_snoc [OF in1] bal1 by simp
  have a_in1: "sl_array a < length m1"
    by (simp add: a_def m1_def)
  have a2: "mem_read m2 a = mem_read m bal"
    unfolding m2_def using mem_read_snoc [OF a_in1] read_a by simp
  have in2: "sl_array bal < length m2"
    using in1 by (simp add: m2_def)
  have second: "Balances_mem m2 bal = (c, m3)"
    unfolding c_def m3_def using Balances_mem_result [OF in2] by (simp only: bal2)
  have read_c: "mem_read m3 c = mem_read m bal"
    unfolding c_def m3_def by (simp add: mem_read_fresh mem_read_take)
  have bal3: "mem_read m3 bal = mem_read m bal"
    unfolding m3_def using mem_read_snoc [OF in2] bal2 by simp
  have a'_in2: "sl_array a' < length m2"
    by (simp add: a'_def m2_def)
  have a'3: "mem_read m3 a' = mem_read m bal @ [x]"
    unfolding m3_def using mem_read_snoc [OF a'_in2] read_a' by simp
  have addr: "sl_array a = length m" "sl_len a = sl_len bal" "sl_cap a = sl_len bal"
    "sl_array a' = length m1" "sl_array c = length m2"
    by (simp_all add: a_def a'_def c_def)
  have lens: "length m1 = Suc (length m)" "length m2 = Suc (Suc (length m))"
    by (simp_all add: m1_def m2_def)
  have neq: "sl_array a \<noteq> sl_array bal" "sl_array c \<noteq> sl_array a"
    "sl_array c \<noteq> sl_array a'" "sl_array c \<noteq> sl_array bal"
    using assms(1) by (simp_all add: addr lens)
  have old: "take (length m) m1 = m" "take (length m) m2 = m" "take (length m) m3 = m"
    by (simp_all add: m1_def m2_def m3_def)
  have eqs: "m1 = m @ [mem_read m bal]" "m2 = m1 @ [mem_read m bal @ [x]]"
    "m3 = m2 @ [mem_read m bal]"
    by (simp_all only: m1_def m2_def m3_def)
  have contents: "mem_read m bal = Balances (b\<lparr> st_Balances := mem_read m bal \<rparr>)"
    by (simp add: Balances_contents)
  have len_a: "length (mem_read m1 a) = sl_len bal"
    by (simp only: read_a len)
  have len_c: "length (mem_read m3 c) = sl_len bal"
    by (simp only: read_c len)
  have contents_a: "mem_read m1 a = Balances (b\<lparr> st_Balances := mem_read m bal \<rparr>)"
    using read_a contents by (simp only:)
  have inner: "mem_read m3 c = mem_read m bal
      \<and> length (mem_read m3 c) = sl_len bal
      \<and> sl_array c = length m2
      \<and> sl_array c \<noteq> sl_array a
      \<and> sl_array c \<noteq> sl_array a'
      \<and> sl_array c \<noteq> sl_array bal
      \<and> m3 = m2 @ [mem_read m bal]
      \<and> take (length m) m3 = m
      \<and> mem_read m3 bal = mem_read m bal
      \<and> mem_read m3 a' = mem_read m bal @ [x]"
    using read_c len_c addr(5) neq(2-4) eqs(3) old(3) bal3 a'3 by blast
  have middle: "mem_read m2 a' = mem_read m bal @ [x]
      \<and> mem_read m2 bal = mem_read m bal
      \<and> sl_array a' = length m1
      \<and> m2 = m1 @ [mem_read m bal @ [x]]
      \<and> take (length m) m2 = m
      \<and> mem_read m2 a = mem_read m bal"
    using read_a' bal2 addr(4) eqs(2) old(2) a2 by blast
  have outer: "mem_read m1 a = Balances (b\<lparr> st_Balances := mem_read m bal \<rparr>)
      \<and> mem_read m1 a = mem_read m bal
      \<and> length (mem_read m1 a) = sl_len bal
      \<and> sl_array a \<noteq> sl_array bal
      \<and> sl_array a = length m
      \<and> sl_len a = sl_len bal
      \<and> sl_cap a = sl_len bal
      \<and> m1 = m @ [mem_read m bal]
      \<and> take (length m) m1 = m"
    using read_a contents_a len_a neq(1) addr(1-3) eqs(1) old(1) by blast
  show ?thesis
    unfolding first app second prod.case
    using outer middle inner Balances_contents [of b] by blast
qed

theorem Balances_fresh_copy_witness:
  "sl_array balances_slice < length balances_memory
   \<and> length (balances_memory ! sl_array balances_slice) = sl_cap balances_slice
   \<and> sl_len balances_slice \<le> sl_cap balances_slice
   \<and> Balances balances_state = [32000000000, 31500000000, 32000000000]
   \<and> mem_read balances_memory balances_slice = [32000000000, 31500000000, 32000000000]
   \<and> (case Balances_mem balances_memory balances_slice of (a, m1) \<Rightarrow>
          mem_read m1 a = [32000000000, 31500000000, 32000000000]
        \<and> sl_array a = 1
        \<and> take 1 m1 = balances_memory
        \<and> (case mem_append m1 a 32000000000 of (a', m2) \<Rightarrow>
              mem_read m2 a' = [32000000000, 31500000000, 32000000000, 32000000000]
            \<and> take 1 m2 = balances_memory
            \<and> (case Balances_mem m2 balances_slice of (c, m3) \<Rightarrow>
                  mem_read m3 c = [32000000000, 31500000000, 32000000000]
                \<and> length (mem_read m3 c) = 3
                \<and> sl_array c = 3
                \<and> take 1 m3 = balances_memory)))"
proof -
  have h1: "sl_array balances_slice < length balances_memory"
    by (simp add: balances_slice_def balances_memory_def)
  have h2: "length (balances_memory ! sl_array balances_slice) = sl_cap balances_slice"
    by (simp add: balances_slice_def balances_memory_def)
  have h3: "sl_len balances_slice \<le> sl_cap balances_slice"
    by (simp add: balances_slice_def)
  have r: "mem_read balances_memory balances_slice = [32000000000, 31500000000, 32000000000]"
    by (simp add: balances_slice_def balances_memory_def mem_read_def)
  have l: "sl_len balances_slice = 3"
    by (simp add: balances_slice_def)
  have n: "length balances_memory = 1"
    by (simp add: balances_memory_def)
  show ?thesis
    using Balances_fresh_copy [OF h1 h2 h3, of balances_state 32000000000] h1 h2 h3
    by (auto simp add: r l n balances_state_def split: prod.splits)
qed

text \<open>
  C9. Whatever the lengths of the stored root buffers, every root returned by
  \<^verbatim>\<open>BlockRoots\<close>, \<^verbatim>\<open>StateRoots\<close>, \<^verbatim>\<open>HistoricalRoots\<close>, \<^verbatim>\<open>RandaoMixes\<close>,
  \<^verbatim>\<open>Eth1Data\<close>, the three checkpoint getters and \<^verbatim>\<open>LatestBlockHeader\<close> has length
  32. The getters are total functions of the state: none has an error result.
\<close>

theorem roots_have_length_32:
  "map length (BlockRoots b) = replicate (length (st_BlockRoots b)) 32
   \<and> map length (StateRoots b) = replicate (length (st_StateRoots b)) 32
   \<and> map length (HistoricalRoots b) = replicate (length (st_HistoricalRoots b)) 32
   \<and> map length (RandaoMixes b) = replicate (length (st_RandaoMixes b)) 32
   \<and> length (eth1_DepositRoot (Eth1Data b)) = 32
   \<and> length (eth1_BlockHash (Eth1Data b)) = 32
   \<and> length (cp_Root (PreviousJustifiedCheckpoint b)) = 32
   \<and> length (cp_Root (CurrentJustifiedCheckpoint b)) = 32
   \<and> length (cp_Root (FinalizedCheckpoint b)) = 32
   \<and> length (hdr_ParentRoot (LatestBlockHeader b)) = 32
   \<and> length (hdr_StateRoot (LatestBlockHeader b)) = 32
   \<and> length (hdr_BodyRoot (LatestBlockHeader b)) = 32"
  by (simp add: BlockRoots_def StateRoots_def HistoricalRoots_def RandaoMixes_def
      Eth1Data_def PreviousJustifiedCheckpoint_def CurrentJustifiedCheckpoint_def
      FinalizedCheckpoint_def LatestBlockHeader_def tmpRt_def go_copy_zero32_length
      map_replicate_const comp_def)

text \<open>
  C10. A getter of a sequence returns the empty sequence when the stored sequence is
  empty.
\<close>

theorem empty_sequences:
  "BlockRoots (b\<lparr> st_BlockRoots := [] \<rparr>) = []
   \<and> StateRoots (b\<lparr> st_StateRoots := [] \<rparr>) = []
   \<and> HistoricalRoots (b\<lparr> st_HistoricalRoots := [] \<rparr>) = []
   \<and> Eth1DataVotes (b\<lparr> st_Eth1DataVotes := [] \<rparr>) = []
   \<and> Validators (b\<lparr> st_Validators := [] \<rparr>) = []
   \<and> Balances (b\<lparr> st_Balances := [] \<rparr>) = []
   \<and> RandaoMixes (b\<lparr> st_RandaoMixes := [] \<rparr>) = []
   \<and> Slashings (b\<lparr> st_Slashings := [] \<rparr>) = []
   \<and> PreviousEpochAttestations (b\<lparr> st_PreviousEpochAttestations := [] \<rparr>) = []
   \<and> CurrentEpochAttestations (b\<lparr> st_CurrentEpochAttestations := [] \<rparr>) = []"
  by (simp add: BlockRoots_def StateRoots_def HistoricalRoots_def Eth1DataVotes_def
      Validators_def Balances_def RandaoMixes_def Slashings_def
      PreviousEpochAttestations_def CurrentEpochAttestations_def go_copy_def make_u64_def)

end
